theory Spec2Isabelle
  imports Main "HOL-Library.Sublist"
begin

text \<open>
  A model of two handlers of the fuel-station back office: the route-matrix proxy
  (\<^verbatim>\<open>src/app/api/route-matrix/route.ts\<close>: the \<^verbatim>\<open>POST\<close> handler, its cache and the
  periodic sweep) and the bearer-token check (\<^verbatim>\<open>src/lib/auth/serverAuth.ts\<close>:
  \<^verbatim>\<open>verifyAuthToken\<close>). What lies outside the two files is a parameter of the model: the
  clock, the environment's credential, the upstream routing API, the identity
  provider's verifier, and the number conversions of the JavaScript engine.
\<close>

section \<open>JavaScript values the handlers work on\<close>

text \<open>
  Strings are Isabelle strings. The request texts the handlers take apart (coordinates,
  mode and unit names, the \<^verbatim>\<open>Authorization\<close> header) are ASCII.

  A computation of the source either returns a value or throws; a rejected promise that
  is awaited throws as well. \<open>Throw m\<close> carries the \<^verbatim>\<open>message\<close> of the thrown error.
\<close>

datatype 'a completion = Return 'a | Throw string

text \<open>
  \<^verbatim>\<open>s.split(sep)\<close>: the pieces of \<open>s\<close> between the occurrences of \<open>sep\<close>, found from
  left to right without overlap. The empty string gives one empty piece. With the
  empty separator JavaScript splits into single characters.
\<close>

function split_at :: "string \<Rightarrow> string \<Rightarrow> string list" where
  "split_at [] sep = [[]]"
| "split_at (c # cs) sep =
     (if sep \<noteq> [] \<and> prefix sep (c # cs)
      then [] # split_at (drop (length sep) (c # cs)) sep
      else (case split_at cs sep of
              [] \<Rightarrow> [[c]]
            | p # ps \<Rightarrow> (c # p) # ps))"
  by pat_completeness auto
termination
  by (relation "measure (\<lambda>(s, sep). length s)") (auto simp: neq_Nil_conv)

definition split :: "string \<Rightarrow> string \<Rightarrow> string list" where
  "split s sep = (if sep = [] then map (\<lambda>c. [c]) s else split_at s sep)"

text \<open>
  Array destructuring \<^verbatim>\<open>const [a, b] = xs\<close> and indexing \<^verbatim>\<open>xs[i]\<close>: a position past
  the end reads \<^verbatim>\<open>undefined\<close>, which is \<open>None\<close> here.
\<close>

definition element :: "'a list \<Rightarrow> nat \<Rightarrow> 'a option" where
  "element xs i = (if i < length xs then Some (xs ! i) else None)"

text \<open>\<^verbatim>\<open>s.toUpperCase()\<close> on ASCII text: the letters a to z move to A to Z.\<close>

definition toUpperCase_char :: "char \<Rightarrow> char" where
  "toUpperCase_char c =
     (if 97 \<le> (of_char c :: nat) \<and> (of_char c :: nat) \<le> 122
      then char_of ((of_char c :: nat) - 32) else c)"

definition toUpperCase :: "string \<Rightarrow> string" where
  "toUpperCase s = map toUpperCase_char s"

text \<open>The decimal text of a natural number, as a template literal prints it.\<close>

definition digit :: "nat \<Rightarrow> char" where
  "digit d = char_of (48 + d)"

function decimal :: "nat \<Rightarrow> string" where
  "decimal n = (if n < 10 then [digit n] else decimal (n div 10) @ [digit (n mod 10)])"
  by pat_completeness auto
termination
  by (relation "measure id") auto

declare decimal.simps [simp del]

text \<open>
  Truthiness of a string that may be absent: \<^verbatim>\<open>undefined\<close> and the empty string are
  falsy.
\<close>

definition falsy :: "string option \<Rightarrow> bool" where
  "falsy v = (case v of None \<Rightarrow> True | Some s \<Rightarrow> s = [])"

text \<open>A destructuring default \<^verbatim>\<open>{ x = d }\<close>: it applies when the field is \<^verbatim>\<open>undefined\<close>.\<close>

definition withDefault :: "string \<Rightarrow> string option \<Rightarrow> string" where
  "withDefault d v = (case v of None \<Rightarrow> d | Some s \<Rightarrow> s)"

text \<open>
  JSON data. Numbers are IEEE doubles in the source; they stay abstract (the type \<open>'n\<close>),
  and what the handler needs of them comes from the engine below. In an object the
  last binding of a key wins, as \<^verbatim>\<open>JSON.parse\<close> has it.
\<close>

datatype 'n json =
    JNull
  | JBool bool
  | JNum 'n
  | JStr string
  | JArr "'n json list"
  | JObj "(string \<times> 'n json) list"

record 'n engine =
  Number :: "string \<Rightarrow> 'n"
  numberIsFalsy :: "'n \<Rightarrow> bool"
  numberToString :: "'n \<Rightarrow> string"
  nullPropertyMessage :: string

definition truthy :: "'n engine \<Rightarrow> 'n json \<Rightarrow> bool" where
  "truthy eng v =
     (case v of
        JNull \<Rightarrow> False
      | JBool b \<Rightarrow> b
      | JNum n \<Rightarrow> \<not> numberIsFalsy eng n
      | JStr s \<Rightarrow> s \<noteq> []
      | JArr xs \<Rightarrow> True
      | JObj kvs \<Rightarrow> True)"

text \<open>Reading property \<open>k\<close> of an object; \<open>None\<close> is \<^verbatim>\<open>undefined\<close>.\<close>

definition property :: "(string \<times> 'n json) list \<Rightarrow> string \<Rightarrow> 'n json option" where
  "property kvs k = map_of (rev kvs) k"

fun join :: "string \<Rightarrow> string list \<Rightarrow> string" where
  "join sep [] = []"
| "join sep [x] = x"
| "join sep (x # y # ys) = x @ sep @ join sep (y # ys)"

text \<open>
  The text a template literal makes of a value: an array joins its elements with
  commas, a \<^verbatim>\<open>null\<close> element giving the empty text.
\<close>

fun toString :: "'n engine \<Rightarrow> 'n json \<Rightarrow> string" where
  "toString eng JNull = ''null''"
| "toString eng (JBool b) = (if b then ''true'' else ''false'')"
| "toString eng (JNum n) = numberToString eng n"
| "toString eng (JStr s) = s"
| "toString eng (JArr xs) =
     join '','' (map (\<lambda>x. if x = JNull then [] else toString eng x) xs)"
| "toString eng (JObj kvs) = ''[object Object]''"


section \<open>The route-matrix proxy\<close>

subsection \<open>Data\<close>

definition MAX_DESTINATIONS :: nat where
  "MAX_DESTINATIONS = 25"

definition CACHE_TTL_MS :: int where
  "CACHE_TTL_MS = 1000 * 60 * 5"

text \<open>
  The request body after \<^verbatim>\<open>request.json()\<close>. The handler's contract types every field
  as a string (it calls \<^verbatim>\<open>split\<close> and \<^verbatim>\<open>toUpperCase\<close> on them); a field left out of the
  body is \<^verbatim>\<open>undefined\<close>, here \<open>None\<close>. The handler receives a \<open>body completion\<close>:
  \<^verbatim>\<open>request.json()\<close> throws on a request that is not JSON.
\<close>

record body =
  body_origins :: "string option"
  body_destinations :: "string option"
  body_mode :: "string option"
  body_units :: "string option"
  body_language :: "string option"

text \<open>A cache entry, and the process-wide \<^verbatim>\<open>Map\<close> from cache keys to entries.\<close>

record 'n CacheEntry =
  ce_data :: "'n json"
  ce_timestamp :: int

type_synonym 'n cache = "string \<Rightarrow> 'n CacheEntry option"

text \<open>The parsed pair \<^verbatim>\<open>{ lat, lng }\<close>; a missing component is \<^verbatim>\<open>undefined\<close>.\<close>

record 'n coord =
  lat :: "'n option"
  lng :: "'n option"

text \<open>
  The nested request of the routing API:
  \<^verbatim>\<open>{ waypoint: { location: { latLng: { latitude, longitude } } } }\<close> for each origin and
  destination.
\<close>

record 'n latLng =
  latitude :: "'n option"
  longitude :: "'n option"

record 'n location =
  latLng :: "'n latLng"

record 'n waypoint =
  location :: "'n location"

record 'n endpoint =
  waypoint :: "'n waypoint"

record 'n requestBody =
  rb_origins :: "'n endpoint list"
  rb_destinations :: "'n endpoint list"
  travelMode :: string
  languageCode :: string
  rb_units :: string

text \<open>
  What \<^verbatim>\<open>fetch\<close> resolves to: the HTTP status and the outcome of \<^verbatim>\<open>response.json()\<close>,
  which throws on a body that is not JSON. \<^verbatim>\<open>response.ok\<close> is a status from 200 to 299.
\<close>

record 'n fetchResponse =
  fr_status :: nat
  fr_json :: "'n json completion"

definition ok :: "'n fetchResponse \<Rightarrow> bool" where
  "ok response = (200 \<le> fr_status response \<and> fr_status response \<le> 299)"

text \<open>\<^verbatim>\<open>NextResponse.json(body, { status })\<close>; the status is 200 when none is given.\<close>

record 'n nextResponse =
  responseBody :: "'n json"
  responseStatus :: nat

definition NextResponse_json :: "'n json \<Rightarrow> nat \<Rightarrow> 'n nextResponse" where
  "NextResponse_json b st = \<lparr>responseBody = b, responseStatus = st\<rparr>"

definition errorBody :: "string \<Rightarrow> 'n json" where
  "errorBody msg = JObj [(''error'', JStr msg)]"

text \<open>
  What a run of the handler does besides answering, in the order it does it:
  \<^verbatim>\<open>cache.get\<close> (line 40), the coordinate parser taking the two strings (lines 49 to 53),
  the outbound \<^verbatim>\<open>fetch\<close> with its credential header and body (line 85), \<^verbatim>\<open>cache.set\<close>
  (line 107). A run yields its answer, the cache it leaves and these events.
\<close>

datatype 'n event =
    CacheGet string
  | ParseCoordinates string string
  | OutboundCall string "'n requestBody"
  | CacheSet string "'n CacheEntry"

record ('r, 'n) run =
  result :: 'r
  store :: "'n cache"
  trace :: "'n event list"

definition outboundCalls :: "'n event list \<Rightarrow> nat" where
  "outboundCalls evs = length (filter (\<lambda>ev. case ev of OutboundCall k rb \<Rightarrow> True | _ \<Rightarrow> False) evs)"

definition cacheLookups :: "'n event list \<Rightarrow> nat" where
  "cacheLookups evs = length (filter (\<lambda>ev. case ev of CacheGet k \<Rightarrow> True | _ \<Rightarrow> False) evs)"

definition cacheWrites :: "'n event list \<Rightarrow> nat" where
  "cacheWrites evs = length (filter (\<lambda>ev. case ev of CacheSet k e \<Rightarrow> True | _ \<Rightarrow> False) evs)"

definition parserRuns :: "'n event list \<Rightarrow> nat" where
  "parserRuns evs = length (filter (\<lambda>ev. case ev of ParseCoordinates a b \<Rightarrow> True | _ \<Rightarrow> False) evs)"

subsection \<open>The periodic sweep\<close>

text \<open>\<^verbatim>\<open>cleanupCache\<close>, run every \<^verbatim>\<open>CACHE_TTL_MS\<close>; \<open>now\<close> is its \<^verbatim>\<open>Date.now()\<close>.\<close>

definition cleanupCache :: "int \<Rightarrow> 'n cache \<Rightarrow> 'n cache" where
  "cleanupCache now cache =
     (\<lambda>key. case cache key of
               None \<Rightarrow> None
             | Some value \<Rightarrow> if now - ce_timestamp value > CACHE_TTL_MS then None else Some value)"

subsection \<open>Parser and wire format\<close>

text \<open>\<^verbatim>\<open>const [lat, lng] = d.split(',').map(Number)\<close>\<close>

definition parsePair :: "'n engine \<Rightarrow> string \<Rightarrow> 'n coord" where
  "parsePair eng d =
     (let parts = map (Number eng) (split d '','')
      in \<lparr>lat = element parts 0, lng = element parts 1\<rparr>)"

definition parseDestinations :: "'n engine \<Rightarrow> string \<Rightarrow> 'n coord list" where
  "parseDestinations eng destinations = map (parsePair eng) (split destinations ''|'')"

definition toEndpoint :: "'n option \<Rightarrow> 'n option \<Rightarrow> 'n endpoint" where
  "toEndpoint la lo =
     \<lparr>waypoint = \<lparr>location = \<lparr>latLng = \<lparr>latitude = la, longitude = lo\<rparr>\<rparr>\<rparr>\<rparr>"

definition buildRequestBody ::
  "'n option \<Rightarrow> 'n option \<Rightarrow> 'n coord list \<Rightarrow> string \<Rightarrow> string \<Rightarrow> string \<Rightarrow> 'n requestBody" where
  "buildRequestBody originLat originLng destArray mode language units =
     \<lparr>rb_origins = [toEndpoint originLat originLng],
      rb_destinations = map (\<lambda>d. toEndpoint (lat d) (lng d)) destArray,
      travelMode = toUpperCase mode,
      languageCode = language,
      rb_units = toUpperCase units\<rparr>"

text \<open>Lines 48 to 82 of the handler: from the request strings to the outbound body.\<close>

definition wireRequest ::
  "'n engine \<Rightarrow> string \<Rightarrow> string \<Rightarrow> string \<Rightarrow> string \<Rightarrow> string \<Rightarrow> 'n requestBody" where
  "wireRequest eng origins destinations mode units language =
     (let origin = parsePair eng origins;
          destArray = parseDestinations eng destinations
      in buildRequestBody (lat origin) (lng origin) destArray mode language units)"

subsection \<open>The handler\<close>

text \<open>
  The template literal of line 39 that makes \<^verbatim>\<open>cacheKey\<close>, and \<^verbatim>\<open>destinationCount\<close> of
  line 34.
\<close>

definition makeCacheKey :: "string \<Rightarrow> string \<Rightarrow> string \<Rightarrow> string \<Rightarrow> string \<Rightarrow> string" where
  "makeCacheKey origins destinations mode units language =
     origins @ ''|'' @ destinations @ ''|'' @ mode @ ''|'' @ units @ ''|'' @ language"

definition destinationCount :: "string \<Rightarrow> nat" where
  "destinationCount destinations = length (split destinations ''|'')"

text \<open>
  \<^verbatim>\<open>cachedEntry && (now - cachedEntry.timestamp < CACHE_TTL_MS)\<close>; timestamps are the
  integer milliseconds of \<^verbatim>\<open>Date.now()\<close>.
\<close>

definition fresh :: "int \<Rightarrow> 'n CacheEntry option \<Rightarrow> bool" where
  "fresh now cachedEntry =
     (case cachedEntry of
        None \<Rightarrow> False
      | Some e \<Rightarrow> now - ce_timestamp e < CACHE_TTL_MS)"

text \<open>
  \<^verbatim>\<open>data.error?.message\<close>: reading a property of \<^verbatim>\<open>null\<close> throws a TypeError; a
  property that is not there reads \<^verbatim>\<open>undefined\<close>.
\<close>

definition errorMessageOf :: "'n engine \<Rightarrow> 'n json \<Rightarrow> 'n json option completion" where
  "errorMessageOf eng data =
     (case data of
        JNull \<Rightarrow> Throw (nullPropertyMessage eng)
      | JObj kvs \<Rightarrow>
          (case property kvs ''error'' of
             Some (JObj ekvs) \<Rightarrow> Return (property ekvs ''message'')
           | _ \<Rightarrow> Return None)
      | _ \<Rightarrow> Return None)"

text \<open>\<^verbatim>\<open>${message || 'Unknown'}\<close>\<close>

definition orUnknown :: "'n engine \<Rightarrow> 'n json option \<Rightarrow> string" where
  "orUnknown eng message =
     (case message of
        None \<Rightarrow> ''Unknown''
      | Some m \<Rightarrow> if truthy eng m then toString eng m else ''Unknown'')"

text \<open>
  Lines 95 to 112: the upstream response is read as JSON, a status outside 200 to 299
  is mapped to an error, and a truthy payload is stored under the cache key with the
  time of the write.
\<close>

definition handleResponse ::
  "'n engine \<Rightarrow> 'n cache \<Rightarrow> string \<Rightarrow> int \<Rightarrow> 'n fetchResponse
     \<Rightarrow> ('n nextResponse completion, 'n) run" where
  "handleResponse eng cache cacheKey storeNow response =
     (case fr_json response of
        Throw m \<Rightarrow> \<lparr>result = Throw m, store = cache, trace = []\<rparr>
      | Return data \<Rightarrow>
          if \<not> ok response then
            (if fr_status response = 429 then
               \<lparr>result = Return (NextResponse_json (errorBody ''Rate limit exceeded. Try later.'') 429),
                store = cache, trace = []\<rparr>
             else
               (case errorMessageOf eng data of
                  Throw m \<Rightarrow> \<lparr>result = Throw m, store = cache, trace = []\<rparr>
                | Return message \<Rightarrow>
                    \<lparr>result = Return (NextResponse_json
                        (errorBody (''HTTP Error: '' @ decimal (fr_status response) @ '' - ''
                                      @ orUnknown eng message))
                        (fr_status response)),
                     store = cache, trace = []\<rparr>))
          else if truthy eng data then
            (let entry = \<lparr>ce_data = data, ce_timestamp = storeNow\<rparr>
             in \<lparr>result = Return (NextResponse_json data 200),
                 store = cache(cacheKey \<mapsto> entry),
                 trace = [CacheSet cacheKey entry]\<rparr>)
          else
            (case errorMessageOf eng data of
               Throw m \<Rightarrow> \<lparr>result = Throw m, store = cache, trace = []\<rparr>
             | Return message \<Rightarrow>
                 \<lparr>result = Return (NextResponse_json data 200), store = cache, trace = []\<rparr>))"

text \<open>Lines 48 to 112: the cache had no fresh entry.\<close>

definition fetchFresh ::
  "'n engine \<Rightarrow> string \<Rightarrow> (string \<Rightarrow> 'n requestBody \<Rightarrow> 'n fetchResponse completion)
     \<Rightarrow> int \<Rightarrow> 'n cache \<Rightarrow> string \<Rightarrow> string \<Rightarrow> string \<Rightarrow> string \<Rightarrow> string \<Rightarrow> string
     \<Rightarrow> ('n nextResponse completion, 'n) run" where
  "fetchFresh eng apiKey fetch storeNow cache cacheKey origins destinations mode units language =
     (let requestBody = wireRequest eng origins destinations mode units language;
          before = [ParseCoordinates origins destinations, OutboundCall apiKey requestBody]
      in case fetch apiKey requestBody of
           Throw m \<Rightarrow> \<lparr>result = Throw m, store = cache, trace = before\<rparr>
         | Return response \<Rightarrow>
             (let r = handleResponse eng cache cacheKey storeNow response
              in \<lparr>result = result r, store = store r, trace = before @ trace r\<rparr>))"

text \<open>Lines 34 to 112: origins, destinations and the credential are there.\<close>

definition lookupOrFetch ::
  "'n engine \<Rightarrow> string \<Rightarrow> (string \<Rightarrow> 'n requestBody \<Rightarrow> 'n fetchResponse completion)
     \<Rightarrow> int \<Rightarrow> int \<Rightarrow> 'n cache \<Rightarrow> string \<Rightarrow> string \<Rightarrow> string \<Rightarrow> string \<Rightarrow> string
     \<Rightarrow> ('n nextResponse completion, 'n) run" where
  "lookupOrFetch eng apiKey fetch now storeNow cache origins destinations mode units language =
     (if destinationCount destinations > MAX_DESTINATIONS then
        \<lparr>result = Return (NextResponse_json
            (errorBody (''Exceeds max '' @ decimal MAX_DESTINATIONS @ '' destinations.'')) 400),
         store = cache, trace = []\<rparr>
      else
        (let cacheKey = makeCacheKey origins destinations mode units language;
             cachedEntry = cache cacheKey
         in if fresh now cachedEntry then
              \<lparr>result = Return (NextResponse_json (ce_data (the cachedEntry)) 200),
               store = cache, trace = [CacheGet cacheKey]\<rparr>
            else
              (let r = fetchFresh eng apiKey fetch storeNow cache cacheKey
                         origins destinations mode units language
               in \<lparr>result = result r, store = store r, trace = CacheGet cacheKey # trace r\<rparr>)))"

text \<open>
  The body of the \<^verbatim>\<open>try\<close>, lines 22 to 112. \<open>apiKey\<close> is
  \<^verbatim>\<open>process.env.GOOGLE_MAPS_API_KEY\<close>, \<open>fetch\<close> the upstream as the handler calls it (the
  credential header and the body; the URL and the field mask are fixed), \<open>now\<close> the
  \<^verbatim>\<open>Date.now()\<close> of the lookup on line 41 and \<open>storeNow\<close> the \<^verbatim>\<open>Date.now()\<close> of the cache
  write on line 107. A field left out of the body takes its default. After the two
  presence checks \<open>origins\<close>, \<open>destinations\<close> and \<open>apiKey\<close> are strings. Logging is left
  out.
\<close>

definition POST_try ::
  "'n engine \<Rightarrow> string option \<Rightarrow> (string \<Rightarrow> 'n requestBody \<Rightarrow> 'n fetchResponse completion)
     \<Rightarrow> int \<Rightarrow> int \<Rightarrow> 'n cache \<Rightarrow> body completion
     \<Rightarrow> ('n nextResponse completion, 'n) run" where
  "POST_try eng apiKey fetch now storeNow cache request =
     (case request of
        Throw m \<Rightarrow> \<lparr>result = Throw m, store = cache, trace = []\<rparr>
      | Return b \<Rightarrow>
          (let mode = withDefault ''DRIVE'' (body_mode b);
               units = withDefault ''METRIC'' (body_units b);
               language = withDefault ''fr'' (body_language b)
           in if falsy (body_origins b) \<or> falsy (body_destinations b) then
                \<lparr>result = Return (NextResponse_json (errorBody ''Missing origins or destinations'') 400),
                 store = cache, trace = []\<rparr>
              else if falsy apiKey then
                \<lparr>result = Return (NextResponse_json (errorBody ''Missing API key'') 400),
                 store = cache, trace = []\<rparr>
              else
                lookupOrFetch eng (the apiKey) fetch now storeNow cache
                  (the (body_origins b)) (the (body_destinations b)) mode units language))"

text \<open>The \<^verbatim>\<open>catch\<close>: whatever was thrown becomes a 500 answer.\<close>

definition POST ::
  "'n engine \<Rightarrow> string option \<Rightarrow> (string \<Rightarrow> 'n requestBody \<Rightarrow> 'n fetchResponse completion)
     \<Rightarrow> int \<Rightarrow> int \<Rightarrow> 'n cache \<Rightarrow> body completion
     \<Rightarrow> ('n nextResponse, 'n) run" where
  "POST eng apiKey fetch now storeNow cache request =
     (let r = POST_try eng apiKey fetch now storeNow cache request
      in case result r of
           Return response \<Rightarrow> \<lparr>result = response, store = store r, trace = trace r\<rparr>
         | Throw m \<Rightarrow>
             \<lparr>result = NextResponse_json
                 (errorBody (if m = [] then ''Internal Server Error'' else m)) 500,
              store = store r, trace = trace r\<rparr>)"


subsection \<open>Requests that reach the cache\<close>

text \<open>
  The three checks of lines 25 to 37 all pass: origins and destinations are there, the
  credential is configured, and there are at most 25 destinations.
\<close>

definition passesValidation :: "string option \<Rightarrow> body \<Rightarrow> bool" where
  "passesValidation apiKey b =
     (\<not> falsy (body_origins b) \<and> \<not> falsy (body_destinations b) \<and> \<not> falsy apiKey
      \<and> destinationCount (the (body_destinations b)) \<le> MAX_DESTINATIONS)"

text \<open>The cache key and the outbound body the handler computes for such a request.\<close>

definition fingerprint :: "body \<Rightarrow> string" where
  "fingerprint b =
     makeCacheKey (the (body_origins b)) (the (body_destinations b))
       (withDefault ''DRIVE'' (body_mode b)) (withDefault ''METRIC'' (body_units b))
       (withDefault ''fr'' (body_language b))"

definition outboundBody :: "'n engine \<Rightarrow> body \<Rightarrow> 'n requestBody" where
  "outboundBody eng b =
     wireRequest eng (the (body_origins b)) (the (body_destinations b))
       (withDefault ''DRIVE'' (body_mode b)) (withDefault ''METRIC'' (body_units b))
       (withDefault ''fr'' (body_language b))"

section \<open>Verifying the bearer token\<close>

text \<open>
  \<open>authHeader\<close> is \<^verbatim>\<open>request.headers.get('authorization')\<close>, \<^verbatim>\<open>null\<close> when the header is
  absent. \<open>verifyIdToken\<close> stands for \<^verbatim>\<open>auth().verifyIdToken\<close> of the identity provider
  followed by reading \<^verbatim>\<open>uid\<close>: it returns the user id or throws (a rejected promise
  included). The result \<open>None\<close> is \<^verbatim>\<open>null\<close>.
\<close>

definition verifyAuthToken_try ::
  "(string \<Rightarrow> string completion) \<Rightarrow> string option \<Rightarrow> string option completion" where
  "verifyAuthToken_try verifyIdToken authHeader =
     (if falsy authHeader \<or> \<not> prefix ''Bearer '' (the authHeader) then Return None
      else
        (let token = element (split (the authHeader) ''Bearer '') 1
         in if falsy token then Return None
            else (case verifyIdToken (the token) of
                    Throw m \<Rightarrow> Throw m
                  | Return uid \<Rightarrow> Return (Some uid))))"

definition verifyAuthToken ::
  "(string \<Rightarrow> string completion) \<Rightarrow> string option \<Rightarrow> string option completion" where
  "verifyAuthToken verifyIdToken authHeader =
     (case verifyAuthToken_try verifyIdToken authHeader of
        Throw m \<Rightarrow> Return None
      | Return r \<Rightarrow> Return r)"


section \<open>Concrete inputs\<close>

text \<open>
  An engine for running the definitions on examples: a number is kept as the text that
  denotes it, so no digit is lost.
\<close>

definition textEngine :: "string engine" where
  "textEngine =
     \<lparr>Number = (\<lambda>s. s),
      numberIsFalsy = (\<lambda>n. n = ''0''),
      numberToString = (\<lambda>n. n),
      nullPropertyMessage = ''Cannot read properties of null''\<rparr>"

text \<open>The cache of a process that has just started: \<^verbatim>\<open>new Map()\<close>.\<close>

definition emptyCache :: "'n cache" where
  "emptyCache = Map.empty"

text \<open>An upstream that answers every call with the same status and body.\<close>

definition replying ::
  "nat \<Rightarrow> 'n json completion \<Rightarrow> string \<Rightarrow> 'n requestBody \<Rightarrow> 'n fetchResponse completion" where
  "replying st parsed apiKey requestBody = Return \<lparr>fr_status = st, fr_json = parsed\<rparr>"

definition exampleBody :: body where
  "exampleBody =
     \<lparr>body_origins = Some ''34.0,-6.0'',
      body_destinations = Some ''34.1,-6.1|34.2,-6.2'',
      body_mode = None, body_units = None, body_language = None\<rparr>"

definition lowerCaseBody :: body where
  "lowerCaseBody = exampleBody\<lparr>body_mode := Some ''drive''\<rparr>"

definition twentySixDestinations :: string where
  "twentySixDestinations = join ''|'' (replicate 26 ''34.1,-6.1'')"

definition noOriginsBody :: body where
  "noOriginsBody =
     \<lparr>body_origins = None,
      body_destinations = Some twentySixDestinations,
      body_mode = None, body_units = None, body_language = None\<rparr>"

definition tooManyBody :: body where
  "tooManyBody = noOriginsBody\<lparr>body_origins := Some ''34.0,-6.0''\<rparr>"

definition emptyDestinationsBody :: body where
  "emptyDestinationsBody = exampleBody\<lparr>body_destinations := Some []\<rparr>"

definition routeMatrix :: "string json" where
  "routeMatrix =
     JArr [JObj [(''originIndex'', JNum ''0''), (''destinationIndex'', JNum ''0''),
                 (''distanceMeters'', JNum ''15230''), (''duration'', JStr ''1160s'')]]"

definition staleEntry :: "string CacheEntry" where
  "staleEntry = \<lparr>ce_data = JStr ''old'', ce_timestamp = 0\<rparr>"

definition tokenVerifier :: "string \<Rightarrow> string completion" where
  "tokenVerifier token =
     (if token = ''good'' then Return ''user-1'' else Throw ''Decoding Firebase ID token failed'')"


section \<open>Facts about the building blocks\<close>

lemma ttl_value: "CACHE_TTL_MS = 300000"
  by (simp add: CACHE_TTL_MS_def)

lemma decimal_max: "decimal MAX_DESTINATIONS = ''25''"
  by code_simp

lemma fresh_iff: "fresh now c = (\<exists>e. c = Some e \<and> now - ce_timestamp e < 300000)"
  by (cases c) (simp_all add: fresh_def ttl_value)

lemma split_at_not_Nil: "split_at s sep \<noteq> []"
  by (induction s sep rule: split_at.induct) (auto split: list.splits)

lemma destinationCount_pos: "1 \<le> destinationCount d"
  using split_at_not_Nil [of d "''|''"]
  by (simp add: destinationCount_def split_def Suc_le_eq)

lemma split_at_last_piece: "x \<notin> set p \<Longrightarrow> split_at p [x] = [p]"
  by (induction p) auto

lemma split_at_piece: "x \<notin> set p \<Longrightarrow> split_at (p @ x # r) [x] = p # split_at r [x]"
  by (induction p) auto

lemma split_join:
  "ps \<noteq> [] \<Longrightarrow> \<forall>p \<in> set ps. x \<notin> set p \<Longrightarrow> split (join [x] ps) [x] = ps"
proof (induction "[x]" ps rule: join.induct)
  case 1
  then show ?case by simp
next
  case (2 p)
  then show ?case by (simp add: split_def split_at_last_piece)
next
  case (3 p q qs)
  then show ?case by (simp add: split_def split_at_piece del: split_at.simps)
qed

lemma split_at_no_occurrence: "\<not> sublist sep t \<Longrightarrow> split_at t sep = [t]"
proof (induction t)
  case Nil
  then show ?case by simp
next
  case (Cons c cs)
  have "\<not> prefix sep (c # cs)" using Cons.prems by (meson prefix_imp_sublist)
  moreover have "\<not> sublist sep cs" using Cons.prems by (meson sublist_Cons_right)
  ultimately show ?case using Cons.IH by simp
qed

lemma split_at_leading: "sep \<noteq> [] \<Longrightarrow> split_at (sep @ t) sep = [] # split_at t sep"
  by (cases sep) simp_all

lemma cacheKey_inject:
  assumes "makeCacheKey origins destinations m1 u1 language
             = makeCacheKey origins destinations m2 u2 language"
    and "length m1 = length m2"
  shows "m1 = m2 \<and> u1 = u2"
  using assms by (simp add: makeCacheKey_def)

lemma handleResponse_no_outbound:
  "outboundCalls (trace (handleResponse eng cache key storeNow response)) = 0"
  by (simp add: handleResponse_def outboundCalls_def Let_def split: completion.splits)

lemma handleResponse_result_cache:
  "result (handleResponse eng c1 key storeNow response)
     = result (handleResponse eng c2 key storeNow response)"
  by (simp add: handleResponse_def Let_def split: completion.splits)

lemma handleResponse_trace_cache:
  "trace (handleResponse eng c1 key storeNow response)
     = trace (handleResponse eng c2 key storeNow response)"
  by (simp add: handleResponse_def Let_def split: completion.splits)

lemma fetchFresh_outbound:
  "outboundCalls (trace (fetchFresh eng apiKey fetch storeNow cache key
      origins destinations mode units language)) = 1"
  by (simp add: fetchFresh_def Let_def outboundCalls_def handleResponse_def
      split: completion.splits)

lemma fetchFresh_result_cache:
  "result (fetchFresh eng apiKey fetch storeNow c1 key origins destinations mode units language)
     = result (fetchFresh eng apiKey fetch storeNow c2 key origins destinations mode units language)"
  by (simp add: fetchFresh_def Let_def handleResponse_result_cache [of eng c1 _ _ _ c2]
      split: completion.splits)

lemma fetchFresh_trace_cache:
  "trace (fetchFresh eng apiKey fetch storeNow c1 key origins destinations mode units language)
     = trace (fetchFresh eng apiKey fetch storeNow c2 key origins destinations mode units language)"
  by (simp add: fetchFresh_def Let_def handleResponse_trace_cache [of eng c1 _ _ _ c2]
      split: completion.splits)

text \<open>A request that passes the three checks goes to the cache with its fingerprint.\<close>

lemma POST_try_valid:
  assumes "passesValidation apiKey b"
  shows "POST_try eng apiKey fetch now storeNow cache (Return b) =
     (if fresh now (cache (fingerprint b)) then
        \<lparr>result = Return (NextResponse_json (ce_data (the (cache (fingerprint b)))) 200),
         store = cache, trace = [CacheGet (fingerprint b)]\<rparr>
      else
        (let r = fetchFresh eng (the apiKey) fetch storeNow cache (fingerprint b)
                   (the (body_origins b)) (the (body_destinations b))
                   (withDefault ''DRIVE'' (body_mode b)) (withDefault ''METRIC'' (body_units b))
                   (withDefault ''fr'' (body_language b))
         in \<lparr>result = result r, store = store r, trace = CacheGet (fingerprint b) # trace r\<rparr>))"
  using assms
  by (simp add: POST_try_def passesValidation_def lookupOrFetch_def fingerprint_def Let_def)

lemma outboundCalls_CacheGet: "outboundCalls (CacheGet k # evs) = outboundCalls evs"
  by (simp add: outboundCalls_def)

lemma POST_valid_hit:
  assumes "passesValidation apiKey b" "cache (fingerprint b) = Some e"
    "now - ce_timestamp e < 300000"
  shows "POST eng apiKey fetch now storeNow cache (Return b) =
     \<lparr>result = NextResponse_json (ce_data e) 200, store = cache,
      trace = [CacheGet (fingerprint b)]\<rparr>"
  using assms by (simp add: POST_def POST_try_valid fresh_iff)

lemma POST_valid_miss_trace:
  assumes "passesValidation apiKey b" "\<not> fresh now (cache (fingerprint b))"
  shows "trace (POST eng apiKey fetch now storeNow cache (Return b)) =
     CacheGet (fingerprint b) # ParseCoordinates (the (body_origins b)) (the (body_destinations b))
       # OutboundCall (the apiKey) (outboundBody eng b)
       # drop 3 (trace (POST eng apiKey fetch now storeNow cache (Return b)))"
  using assms
  by (simp add: POST_def POST_try_valid Let_def fetchFresh_def outboundBody_def
      split: completion.splits)

lemma POST_valid_miss_outbound:
  assumes "passesValidation apiKey b" "\<not> fresh now (cache (fingerprint b))"
  shows "outboundCalls (trace (POST eng apiKey fetch now storeNow cache (Return b))) = 1"
  using assms
  by (simp add: POST_def POST_try_valid Let_def fetchFresh_outbound outboundCalls_CacheGet
      split: completion.splits)

lemma POST_valid_miss_result_cache:
  assumes "passesValidation apiKey b" "\<not> fresh now (c1 (fingerprint b))"
    "\<not> fresh now (c2 (fingerprint b))"
  shows "result (POST eng apiKey fetch now storeNow c1 (Return b))
     = result (POST eng apiKey fetch now storeNow c2 (Return b))"
  using assms fetchFresh_result_cache [of eng "the apiKey" fetch storeNow c1 "fingerprint b" _ _ _ _ _ c2]
  by (simp add: POST_def POST_try_valid Let_def split: completion.splits)

lemma exampleBody_valid: "passesValidation (Some ''key'') exampleBody"
  by (simp add: passesValidation_def exampleBody_def falsy_def destinationCount_def
      split_def MAX_DESTINATIONS_def)

lemma exampleBody_fingerprint:
  "fingerprint exampleBody = ''34.0,-6.0|34.1,-6.1|34.2,-6.2|DRIVE|METRIC|fr''"
  by (simp add: fingerprint_def exampleBody_def makeCacheKey_def withDefault_def)

lemma twentySix_count: "destinationCount twentySixDestinations = 26"
  by (simp add: destinationCount_def twentySixDestinations_def split_join)

lemma POST_valid_miss:
  assumes "passesValidation apiKey b" "\<not> fresh now (cache (fingerprint b))"
  shows "POST eng apiKey fetch now storeNow cache (Return b) =
     (case fetch (the apiKey) (outboundBody eng b) of
        Throw m \<Rightarrow>
          \<lparr>result = NextResponse_json
              (errorBody (if m = [] then ''Internal Server Error'' else m)) 500,
           store = cache,
           trace = [CacheGet (fingerprint b),
                    ParseCoordinates (the (body_origins b)) (the (body_destinations b)),
                    OutboundCall (the apiKey) (outboundBody eng b)]\<rparr>
      | Return response \<Rightarrow>
          (let h = handleResponse eng cache (fingerprint b) storeNow response
           in \<lparr>result = (case result h of
                           Return r \<Rightarrow> r
                         | Throw m \<Rightarrow> NextResponse_json
                             (errorBody (if m = [] then ''Internal Server Error'' else m)) 500),
               store = store h,
               trace = CacheGet (fingerprint b)
                 # ParseCoordinates (the (body_origins b)) (the (body_destinations b))
                 # OutboundCall (the apiKey) (outboundBody eng b) # trace h\<rparr>))"
  using assms
  by (simp add: POST_def POST_try_valid Let_def fetchFresh_def outboundBody_def
      split: completion.splits)

lemma POST_too_many:
  assumes "body_destinations b = Some d" "MAX_DESTINATIONS < destinationCount d"
  shows "POST eng apiKey fetch now storeNow cache (Return b) =
     \<lparr>result = NextResponse_json
         (errorBody (if falsy (body_origins b) then ''Missing origins or destinations''
                     else if falsy apiKey then ''Missing API key''
                     else ''Exceeds max 25 destinations.'')) 400,
      store = cache, trace = []\<rparr>"
proof -
  have "destinationCount [] = 1"
    by (simp add: destinationCount_def split_def)
  then have "d \<noteq> []"
    using assms(2) by (auto simp: MAX_DESTINATIONS_def)
  then have "\<not> falsy (body_destinations b)"
    using assms(1) by (simp add: falsy_def)
  then show ?thesis
    using assms by (simp add: POST_def POST_try_def Let_def lookupOrFetch_def decimal_max)
qed

lemma exampleBody_miss: "\<not> fresh now (emptyCache (fingerprint exampleBody))"
  by (simp add: emptyCache_def fresh_def)

lemma POST_store_cases:
  "store (POST eng apiKey fetch now storeNow cache request) = cache
   \<or> (\<exists>b response data. request = Return b \<and> passesValidation apiKey b
        \<and> \<not> fresh now (cache (fingerprint b))
        \<and> fetch (the apiKey) (outboundBody eng b) = Return response
        \<and> ok response \<and> fr_json response = Return data \<and> truthy eng data
        \<and> store (POST eng apiKey fetch now storeNow cache request)
            = cache(fingerprint b \<mapsto> \<lparr>ce_data = data, ce_timestamp = storeNow\<rparr>))"
proof (cases request)
  case (Throw m)
  then show ?thesis by (simp add: POST_def POST_try_def)
next
  case (Return b)
  show ?thesis
  proof (cases "passesValidation apiKey b")
    case False
    then have "store (POST eng apiKey fetch now storeNow cache (Return b)) = cache"
      by (auto simp: POST_def POST_try_def Let_def passesValidation_def lookupOrFetch_def
          split: completion.splits)
    then show ?thesis using Return by simp
  next
    case valid: True
    show ?thesis
    proof (cases "fresh now (cache (fingerprint b))")
      case True
      then show ?thesis using Return valid by (simp add: POST_def POST_try_valid)
    next
      case miss: False
      show ?thesis
      proof (cases "fetch (the apiKey) (outboundBody eng b)")
        case (Throw m)
        then show ?thesis using Return valid miss
          by (simp add: POST_valid_miss)
      next
        case reply: (Return response)
        have eq: "POST eng apiKey fetch now storeNow cache (Return b) =
          (let h = handleResponse eng cache (fingerprint b) storeNow response
           in \<lparr>result = (case result h of
                           Return r \<Rightarrow> r
                         | Throw m \<Rightarrow> NextResponse_json
                             (errorBody (if m = [] then ''Internal Server Error'' else m)) 500),
               store = store h,
               trace = CacheGet (fingerprint b)
                 # ParseCoordinates (the (body_origins b)) (the (body_destinations b))
                 # OutboundCall (the apiKey) (outboundBody eng b) # trace h\<rparr>)"
          using valid miss reply by (simp add: POST_valid_miss)
        show ?thesis
        proof (cases "fr_json response")
          case (Throw m)
          then show ?thesis using Return by (simp add: eq handleResponse_def)
        next
          case data: (Return data)
          show ?thesis
          proof (cases "ok response \<and> truthy eng data")
            case True
            then have "store (POST eng apiKey fetch now storeNow cache (Return b))
                = cache(fingerprint b \<mapsto> \<lparr>ce_data = data, ce_timestamp = storeNow\<rparr>)"
              using data by (simp add: eq handleResponse_def Let_def)
            then show ?thesis using Return valid miss reply data True by blast
          next
            case False
            then have "store (POST eng apiKey fetch now storeNow cache (Return b)) = cache"
              using data by (auto simp: eq handleResponse_def Let_def split: completion.splits)
            then show ?thesis using Return by simp
          qed
        qed
      qed
    qed
  qed
qed

lemma bearer_token:
  "element (split (''Bearer '' @ t) ''Bearer '') 1 = Some (hd (split_at t ''Bearer ''))"
proof -
  have "split_at (''Bearer '' @ t) ''Bearer '' = [] # split_at t ''Bearer ''"
    by (rule split_at_leading) simp
  then show ?thesis
    using split_at_not_Nil [of t "''Bearer ''"]
    by (cases "split_at t ''Bearer ''") (simp_all add: split_def element_def)
qed

lemma split_pair:
  "CHR '','' \<notin> set a \<Longrightarrow> CHR '','' \<notin> set b \<Longrightarrow> split (a @ '','' @ b) '','' = [a, b]"
  by (simp add: split_def split_at_piece split_at_last_piece)

lemma parsePair_pair:
  "CHR '','' \<notin> set a \<Longrightarrow> CHR '','' \<notin> set b \<Longrightarrow>
     parsePair eng (a @ '','' @ b) = \<lparr>lat = Some (Number eng a), lng = Some (Number eng b)\<rparr>"
  using split_pair [of a b] by (simp add: parsePair_def element_def del: append.simps)

lemma split_destinations:
  assumes "ps \<noteq> []"
    and "\<forall>p \<in> set ps. CHR ''|'' \<notin> set (fst p) \<and> CHR ''|'' \<notin> set (snd p)"
  shows "split (join ''|'' (map (\<lambda>p. fst p @ '','' @ snd p) ps)) ''|''
           = map (\<lambda>p. fst p @ '','' @ snd p) ps"
  using assms by (intro split_join) auto

lemma POST_store_other_key:
  assumes "request = Return b" "k \<noteq> fingerprint b"
  shows "store (POST eng apiKey fetch now storeNow cache request) k = cache k"
proof -
  have "store (POST eng apiKey fetch now storeNow cache request) = cache
      \<or> (\<exists>e. store (POST eng apiKey fetch now storeNow cache request)
                = cache(fingerprint b \<mapsto> e))"
    using POST_store_cases [of eng apiKey fetch now storeNow cache request] assms(1) by auto
  then show ?thesis using assms(2) by auto
qed

lemma POST_valid_same_entry:
  assumes "passesValidation apiKey b" "c1 (fingerprint b) = c2 (fingerprint b)"
  shows "result (POST eng apiKey fetch now storeNow c1 (Return b))
           = result (POST eng apiKey fetch now storeNow c2 (Return b))
       \<and> trace (POST eng apiKey fetch now storeNow c1 (Return b))
           = trace (POST eng apiKey fetch now storeNow c2 (Return b))"
proof (cases "fresh now (c1 (fingerprint b))")
  case True
  then show ?thesis using assms by (simp add: POST_def POST_try_valid)
next
  case False
  then have "\<not> fresh now (c2 (fingerprint b))" using assms(2) by simp
  then show ?thesis
    using False assms(1)
      fetchFresh_result_cache [of eng "the apiKey" fetch storeNow c1 "fingerprint b" _ _ _ _ _ c2]
      fetchFresh_trace_cache [of eng "the apiKey" fetch storeNow c1 "fingerprint b" _ _ _ _ _ c2]
    by (simp add: POST_def POST_try_valid Let_def split: completion.splits)
qed

lemma toUpperCase_length: "toUpperCase a = toUpperCase b \<Longrightarrow> length a = length b"
  by (metis length_map toUpperCase_def)

lemma lowerCaseBody_valid: "passesValidation (Some ''key'') lowerCaseBody"
  by (simp add: passesValidation_def lowerCaseBody_def exampleBody_def falsy_def
      destinationCount_def split_def MAX_DESTINATIONS_def)

text \<open>
  The sweep removes an entry only when it is older than the TTL, so it never removes an
  entry that a lookup at the same instant would serve.
\<close>

lemma cleanupCache_keeps_fresh: "fresh now (cache k) \<Longrightarrow> cleanupCache now cache k = cache k"
  by (cases "cache k") (simp_all add: cleanupCache_def fresh_def)

lemma split_at_first_occurrence:
  assumes "sep \<noteq> []" and "\<not> sublist sep (p @ butlast sep)"
  shows "split_at (p @ sep @ r) sep = p # split_at r sep"
  using assms(2)
proof (induction p)
  case Nil
  then show ?case using assms(1) by (simp add: split_at_leading)
next
  case (Cons c cs)
  have whole: "sep = butlast sep @ [last sep]"
    using assms(1) by simp
  have "\<not> prefix sep (c # cs @ sep @ r)"
  proof
    assume a: "prefix sep (c # cs @ sep @ r)"
    have "prefix ((c # cs) @ butlast sep) ((c # cs) @ butlast sep @ ([last sep] @ r))"
      by (metis append.assoc prefixI)
    then have b: "prefix ((c # cs) @ butlast sep) (c # cs @ sep @ r)"
      using whole by (metis append.assoc append_Cons)
    have "length sep \<le> length ((c # cs) @ butlast sep)"
      using assms(1) by (simp add: Suc_leI)
    then have "prefix sep ((c # cs) @ butlast sep)"
      using a b by (meson prefix_length_prefix)
    then show False using Cons.prems by (meson prefix_imp_sublist)
  qed
  moreover have "\<not> sublist sep (cs @ butlast sep)"
    using Cons.prems by (metis append_Cons sublist_Cons_right)
  ultimately show ?case using Cons.IH by simp
qed

lemma verifyAuthToken_bearer:
  "verifyAuthToken verifyIdToken (Some (''Bearer '' @ rest)) =
     (if hd (split_at rest ''Bearer '') = [] then Return None
      else (case verifyIdToken (hd (split_at rest ''Bearer '')) of
              Return uid \<Rightarrow> Return (Some uid)
            | Throw m \<Rightarrow> Return None))"
  using bearer_token [of rest]
  by (simp add: verifyAuthToken_def verifyAuthToken_try_def falsy_def Let_def
      split: completion.splits)

section \<open>The claims\<close>

text \<open>
  C1. For every request that passes validation, the proxy answers from the cache (the
  run is the cache lookup alone) if and only if the Cache Store holds an entry for the
  request's fingerprint whose age at lookup time is strictly less than the TTL of
  300000 ms, and then returns that entry's payload. When there is no such entry (none,
  or one whose age is not strictly less than the TTL), the run issues one outbound call
  with the request's wire body, and the answer is the one the proxy gives with the entry
  removed: the stale payload plays no part in it.
\<close>

theorem cached_payload_iff_age_below_ttl:
  assumes "passesValidation apiKey b"
  shows "((trace (POST eng apiKey fetch now storeNow cache (Return b)) = [CacheGet (fingerprint b)])
           = (\<exists>e. cache (fingerprint b) = Some e \<and> now - ce_timestamp e < 300000))
    \<and> (\<forall>e. cache (fingerprint b) = Some e \<and> now - ce_timestamp e < 300000 \<longrightarrow>
           result (POST eng apiKey fetch now storeNow cache (Return b))
             = NextResponse_json (ce_data e) 200
         \<and> outboundCalls (trace (POST eng apiKey fetch now storeNow cache (Return b))) = 0)
    \<and> (\<not> (\<exists>e. cache (fingerprint b) = Some e \<and> now - ce_timestamp e < 300000) \<longrightarrow>
           outboundCalls (trace (POST eng apiKey fetch now storeNow cache (Return b))) = 1
         \<and> OutboundCall (the apiKey) (outboundBody eng b)
              \<in> set (trace (POST eng apiKey fetch now storeNow cache (Return b)))
         \<and> result (POST eng apiKey fetch now storeNow cache (Return b))
             = result (POST eng apiKey fetch now storeNow (cache ((fingerprint b) := None)) (Return b)))"
proof (cases "fresh now (cache (fingerprint b))")
  case True
  then obtain e where e: "cache (fingerprint b) = Some e" "now - ce_timestamp e < 300000"
    by (auto simp: fresh_iff)
  show ?thesis
    using e POST_valid_hit [of apiKey b cache e now eng fetch storeNow, OF assms]
    by (simp add: outboundCalls_def)
next
  case False
  let ?r = "POST eng apiKey fetch now storeNow cache (Return b)"
  have stale: "\<not> (\<exists>e. cache (fingerprint b) = Some e \<and> now - ce_timestamp e < 300000)"
    using False by (simp add: fresh_iff)
  have gone: "\<not> fresh now ((cache ((fingerprint b) := None)) (fingerprint b))"
    by (simp add: fresh_def)
  have tr: "trace ?r = CacheGet (fingerprint b)
      # ParseCoordinates (the (body_origins b)) (the (body_destinations b))
      # OutboundCall (the apiKey) (outboundBody eng b) # drop 3 (trace ?r)"
    by (rule POST_valid_miss_trace [where cache = cache, OF assms False])
  have "trace ?r \<noteq> [CacheGet (fingerprint b)]"
    using tr by (metis list.inject list.distinct(1))
  moreover have "OutboundCall (the apiKey) (outboundBody eng b) \<in> set (trace ?r)"
    using tr by (metis list.set_intros(1) list.set_intros(2))
  moreover have "outboundCalls (trace ?r) = 1"
    by (rule POST_valid_miss_outbound [where cache = cache, OF assms False])
  moreover have "result ?r
      = result (POST eng apiKey fetch now storeNow (cache ((fingerprint b) := None)) (Return b))"
    by (rule POST_valid_miss_result_cache
        [where ?c1.0 = cache and ?c2.0 = "cache ((fingerprint b) := None)", OF assms False gone])
  ultimately show ?thesis using stale by blast
qed

theorem cached_payload_iff_age_below_ttl_witness:
  "passesValidation (Some ''key'') exampleBody
   \<and> result (POST textEngine (Some ''key'') (replying 200 (Return routeMatrix)) 299999 299999
        (emptyCache(fingerprint exampleBody \<mapsto> staleEntry)) (Return exampleBody))
       = NextResponse_json (JStr ''old'') 200
   \<and> outboundCalls (trace (POST textEngine (Some ''key'') (replying 200 (Return routeMatrix)) 300000 300000
        (emptyCache(fingerprint exampleBody \<mapsto> staleEntry)) (Return exampleBody))) = 1"
proof -
  have v: "passesValidation (Some ''key'') exampleBody"
    by (simp add: passesValidation_def exampleBody_def falsy_def destinationCount_def
        split_def MAX_DESTINATIONS_def)
  have e: "(emptyCache(fingerprint exampleBody \<mapsto> staleEntry)) (fingerprint exampleBody) = Some staleEntry"
    by simp
  have t: "ce_timestamp staleEntry = 0" "ce_data staleEntry = JStr ''old''"
    by (simp_all add: staleEntry_def)
  show ?thesis
    using v e t
      cached_payload_iff_age_below_ttl [OF v, of textEngine "replying 200 (Return routeMatrix)" 299999 299999
        "emptyCache(fingerprint exampleBody \<mapsto> staleEntry)"]
      cached_payload_iff_age_below_ttl [OF v, of textEngine "replying 200 (Return routeMatrix)" 300000 300000
        "emptyCache(fingerprint exampleBody \<mapsto> staleEntry)"]
    by simp
qed

text \<open>
  C2 as stated fails: a response is cached only when the upstream call succeeds. When the
  first call is answered 429 nothing is cached, and the same request one millisecond
  later issues a second outbound call.
\<close>

theorem repeat_after_rate_limit_calls_twice:
  "passesValidation (Some ''key'') exampleBody
   \<and> outboundCalls (trace (POST textEngine (Some ''key'') (replying 429 (Return JNull)) 0 0
        emptyCache (Return exampleBody)))
     + outboundCalls (trace (POST textEngine (Some ''key'') (replying 429 (Return JNull)) 1 1
        (store (POST textEngine (Some ''key'') (replying 429 (Return JNull)) 0 0
           emptyCache (Return exampleBody)))
        (Return exampleBody))) = 2"
proof -
  have first: "store (POST textEngine (Some ''key'') (replying 429 (Return JNull)) 0 0
      emptyCache (Return exampleBody)) = emptyCache"
    by (simp add: exampleBody_valid exampleBody_miss POST_valid_miss replying_def
        handleResponse_def ok_def)
  show ?thesis
    unfolding first
    by (simp add: exampleBody_valid exampleBody_miss POST_valid_miss_outbound)
qed

text \<open>
  C2, amended. For every valid input the fingerprint is the literal concatenation
  origins|destinations|mode|units|language, with DRIVE, METRIC and fr for the fields
  left out, and both calls look it up. When the first call is served from an entry that
  is still fresh at the second call, the two calls issue no outbound call; when the
  first call misses, its upstream call succeeds with a truthy payload and the second
  lookup comes less than the TTL after that payload was stored, the two calls issue
  exactly one outbound call. In both cases the second response equals the first.
\<close>

theorem repeat_within_ttl_one_outbound_call:
  assumes "passesValidation apiKey b"
    and "body_origins b = Some origins" and "body_destinations b = Some destinations"
  shows "fingerprint b
      = origins @ ''|'' @ destinations @ ''|'' @ withDefault ''DRIVE'' (body_mode b) @ ''|''
          @ withDefault ''METRIC'' (body_units b) @ ''|'' @ withDefault ''fr'' (body_language b)
    \<and> hd (trace (POST eng apiKey fetch1 t1 s1 cache (Return b))) = CacheGet (fingerprint b)
    \<and> hd (trace (POST eng apiKey fetch2 t2 s2
             (store (POST eng apiKey fetch1 t1 s1 cache (Return b))) (Return b)))
        = CacheGet (fingerprint b)
    \<and> ((\<exists>e. cache (fingerprint b) = Some e \<and> t1 - ce_timestamp e < 300000
              \<and> t2 - ce_timestamp e < 300000) \<longrightarrow>
          outboundCalls (trace (POST eng apiKey fetch1 t1 s1 cache (Return b)))
            + outboundCalls (trace (POST eng apiKey fetch2 t2 s2
                (store (POST eng apiKey fetch1 t1 s1 cache (Return b))) (Return b))) = 0
        \<and> result (POST eng apiKey fetch2 t2 s2
                (store (POST eng apiKey fetch1 t1 s1 cache (Return b))) (Return b))
            = result (POST eng apiKey fetch1 t1 s1 cache (Return b)))
    \<and> (\<not> (\<exists>e. cache (fingerprint b) = Some e \<and> t1 - ce_timestamp e < 300000)
        \<and> fetch1 (the apiKey) (outboundBody eng b) = Return response
        \<and> ok response \<and> fr_json response = Return data \<and> truthy eng data
        \<and> t2 - s1 < 300000 \<longrightarrow>
          outboundCalls (trace (POST eng apiKey fetch1 t1 s1 cache (Return b)))
            + outboundCalls (trace (POST eng apiKey fetch2 t2 s2
                (store (POST eng apiKey fetch1 t1 s1 cache (Return b))) (Return b))) = 1
        \<and> result (POST eng apiKey fetch1 t1 s1 cache (Return b)) = NextResponse_json data 200
        \<and> result (POST eng apiKey fetch2 t2 s2
                (store (POST eng apiKey fetch1 t1 s1 cache (Return b))) (Return b))
            = result (POST eng apiKey fetch1 t1 s1 cache (Return b)))"
proof -
  let ?r1 = "POST eng apiKey fetch1 t1 s1 cache (Return b)"
  let ?r2 = "POST eng apiKey fetch2 t2 s2 (store ?r1) (Return b)"
  have key: "fingerprint b
      = origins @ ''|'' @ destinations @ ''|'' @ withDefault ''DRIVE'' (body_mode b) @ ''|''
          @ withDefault ''METRIC'' (body_units b) @ ''|'' @ withDefault ''fr'' (body_language b)"
    using assms(2,3) by (simp add: fingerprint_def makeCacheKey_def)
  have looks: "hd (trace (POST eng apiKey fetch now storeNow c (Return b))) = CacheGet (fingerprint b)"
    for fetch now storeNow and c :: "'a cache"
    using assms(1) by (simp add: POST_def POST_try_valid Let_def split: completion.splits)
  have hit: "outboundCalls (trace ?r1) + outboundCalls (trace ?r2) = 0 \<and> result ?r2 = result ?r1"
    if "\<exists>e. cache (fingerprint b) = Some e \<and> t1 - ce_timestamp e < 300000
              \<and> t2 - ce_timestamp e < 300000"
  proof -
    from that obtain e where e: "cache (fingerprint b) = Some e"
      "t1 - ce_timestamp e < 300000" "t2 - ce_timestamp e < 300000" by blast
    have one: "?r1 = \<lparr>result = NextResponse_json (ce_data e) 200, store = cache,
        trace = [CacheGet (fingerprint b)]\<rparr>"
      using assms(1) e(1,2) by (simp add: POST_valid_hit)
    have two: "POST eng apiKey fetch2 t2 s2 cache (Return b)
        = \<lparr>result = NextResponse_json (ce_data e) 200, store = cache,
        trace = [CacheGet (fingerprint b)]\<rparr>"
      using assms(1) e(1,3) by (simp add: POST_valid_hit)
    show ?thesis
      by (simp add: one two outboundCalls_def)
  qed
  have miss: "outboundCalls (trace ?r1) + outboundCalls (trace ?r2) = 1
      \<and> result ?r1 = NextResponse_json data 200 \<and> result ?r2 = result ?r1"
    if stale: "\<not> (\<exists>e. cache (fingerprint b) = Some e \<and> t1 - ce_timestamp e < 300000)"
      and reply: "fetch1 (the apiKey) (outboundBody eng b) = Return response"
      and good: "ok response" "fr_json response = Return data" "truthy eng data"
      and soon: "t2 - s1 < 300000"
  proof -
    have nf: "\<not> fresh t1 (cache (fingerprint b))"
      using stale by (simp add: fresh_iff)
    have one: "?r1 = \<lparr>result = NextResponse_json data 200,
        store = cache(fingerprint b \<mapsto> \<lparr>ce_data = data, ce_timestamp = s1\<rparr>),
        trace = [CacheGet (fingerprint b),
                 ParseCoordinates (the (body_origins b)) (the (body_destinations b)),
                 OutboundCall (the apiKey) (outboundBody eng b),
                 CacheSet (fingerprint b) \<lparr>ce_data = data, ce_timestamp = s1\<rparr>]\<rparr>"
      using assms(1) nf reply good by (simp add: POST_valid_miss handleResponse_def Let_def)
    have two: "POST eng apiKey fetch2 t2 s2
          (cache(fingerprint b \<mapsto> \<lparr>ce_data = data, ce_timestamp = s1\<rparr>)) (Return b)
        = \<lparr>result = NextResponse_json data 200,
           store = cache(fingerprint b \<mapsto> \<lparr>ce_data = data, ce_timestamp = s1\<rparr>),
           trace = [CacheGet (fingerprint b)]\<rparr>"
      using assms(1) soon
        POST_valid_hit [where cache = "cache(fingerprint b \<mapsto> \<lparr>ce_data = data, ce_timestamp = s1\<rparr>)"
          and b = b and apiKey = apiKey and e = "\<lparr>ce_data = data, ce_timestamp = s1\<rparr>"
          and now = t2 and eng = eng and fetch = fetch2 and storeNow = s2]
      by simp
    show ?thesis
      by (simp add: one two outboundCalls_def)
  qed
  show ?thesis using key looks hit miss by blast
qed

theorem repeat_within_ttl_one_outbound_call_witness:
  "passesValidation (Some ''key'') exampleBody
   \<and> fingerprint exampleBody = ''34.0,-6.0|34.1,-6.1|34.2,-6.2|DRIVE|METRIC|fr''
   \<and> outboundCalls (trace (POST textEngine (Some ''key'') (replying 200 (Return routeMatrix)) 0 5
        emptyCache (Return exampleBody)))
     + outboundCalls (trace (POST textEngine (Some ''key'') (replying 200 (Return routeMatrix))
        300004 300009
        (store (POST textEngine (Some ''key'') (replying 200 (Return routeMatrix)) 0 5
           emptyCache (Return exampleBody)))
        (Return exampleBody))) = 1
   \<and> result (POST textEngine (Some ''key'') (replying 200 (Return routeMatrix)) 300004 300009
        (store (POST textEngine (Some ''key'') (replying 200 (Return routeMatrix)) 0 5
           emptyCache (Return exampleBody)))
        (Return exampleBody))
       = NextResponse_json routeMatrix 200"
proof -
  have o: "body_origins exampleBody = Some ''34.0,-6.0''"
    "body_destinations exampleBody = Some ''34.1,-6.1|34.2,-6.2''"
    by (simp_all add: exampleBody_def)
  have d: "withDefault ''DRIVE'' (body_mode exampleBody) = ''DRIVE''"
    "withDefault ''METRIC'' (body_units exampleBody) = ''METRIC''"
    "withDefault ''fr'' (body_language exampleBody) = ''fr''"
    by (simp_all add: exampleBody_def withDefault_def)
  have none: "\<not> (\<exists>e. (emptyCache :: string cache) (fingerprint exampleBody) = Some e
      \<and> 0 - ce_timestamp e < 300000)"
    by (simp add: emptyCache_def)
  have up: "replying 200 (Return routeMatrix) (the (Some ''key'')) (outboundBody textEngine exampleBody)
      = Return \<lparr>fr_status = 200, fr_json = Return routeMatrix\<rparr>"
    "ok \<lparr>fr_status = 200, fr_json = Return routeMatrix\<rparr>"
    "fr_json \<lparr>fr_status = 200, fr_json = Return routeMatrix\<rparr> = Return routeMatrix"
    "truthy textEngine routeMatrix"
    by (simp_all add: replying_def ok_def truthy_def routeMatrix_def)
  have soon: "(300004 :: int) - 5 < 300000"
    by simp
  note twice = repeat_within_ttl_one_outbound_call
    [where apiKey = "Some ''key''" and b = exampleBody and origins = "''34.0,-6.0''"
      and destinations = "''34.1,-6.1|34.2,-6.2''" and eng = textEngine
      and cache = "emptyCache :: string cache"
      and ?fetch1.0 = "replying 200 (Return routeMatrix)"
      and ?fetch2.0 = "replying 200 (Return routeMatrix)"
      and ?t1.0 = 0 and ?s1.0 = 5 and ?t2.0 = 300004 and ?s2.0 = 300009
      and response = "\<lparr>fr_status = 200, fr_json = Return routeMatrix\<rparr>"
      and data = routeMatrix, OF exampleBody_valid o]
  have key: "fingerprint exampleBody = ''34.0,-6.0|34.1,-6.1|34.2,-6.2|DRIVE|METRIC|fr''"
    using twice by (simp add: d)
  show ?thesis
    using twice none up soon exampleBody_valid key by metis
qed

text \<open>
  C3. For every body in which origins or destinations is missing (absent or the empty
  string), the proxy answers 400 with the error text "Missing origins or destinations",
  and the run has no event at all: no cache lookup and no outbound call come before the
  answer, and the Cache Store is as it was.
\<close>

theorem missing_fields_bad_request:
  "falsy (body_origins b) \<or> falsy (body_destinations b) \<Longrightarrow>
     result (POST eng apiKey fetch now storeNow cache (Return b))
       = NextResponse_json (errorBody ''Missing origins or destinations'') 400
   \<and> responseStatus (result (POST eng apiKey fetch now storeNow cache (Return b))) = 400
   \<and> trace (POST eng apiKey fetch now storeNow cache (Return b)) = []
   \<and> cacheLookups (trace (POST eng apiKey fetch now storeNow cache (Return b))) = 0
   \<and> outboundCalls (trace (POST eng apiKey fetch now storeNow cache (Return b))) = 0
   \<and> store (POST eng apiKey fetch now storeNow cache (Return b)) = cache"
  by (auto simp: POST_def POST_try_def Let_def NextResponse_json_def cacheLookups_def
      outboundCalls_def)

theorem missing_fields_bad_request_witness:
  "falsy (body_origins noOriginsBody)
   \<and> responseBody (result (POST textEngine (Some ''key'') (replying 200 (Return routeMatrix)) 0 0
        emptyCache (Return noOriginsBody))) = JObj [(''error'', JStr ''Missing origins or destinations'')]
   \<and> trace (POST textEngine (Some ''key'') (replying 200 (Return routeMatrix)) 0 0
        emptyCache (Return noOriginsBody)) = []"
proof -
  have f: "falsy (body_origins noOriginsBody)"
    by (simp add: noOriginsBody_def falsy_def)
  then have g: "falsy (body_origins noOriginsBody) \<or> falsy (body_destinations noOriginsBody)"
    by simp
  show ?thesis
    using f missing_fields_bad_request [OF g, of textEngine "Some ''key''" "replying 200 (Return routeMatrix)" 0 0 emptyCache]
    by (simp add: NextResponse_json_def errorBody_def)
qed

text \<open>
  C4 as stated fails: 26 destinations with origins left out are answered with the text
  of the first check, not with "Exceeds max 25 destinations.".
\<close>

theorem too_many_destinations_without_origins:
  "MAX_DESTINATIONS < destinationCount twentySixDestinations
   \<and> body_destinations noOriginsBody = Some twentySixDestinations
   \<and> responseBody (result (POST textEngine (Some ''key'') (replying 200 (Return routeMatrix)) 0 0
        emptyCache (Return noOriginsBody))) \<noteq> errorBody ''Exceeds max 25 destinations.''"
proof -
  have d: "body_destinations noOriginsBody = Some twentySixDestinations"
    by (simp add: noOriginsBody_def)
  have c: "MAX_DESTINATIONS < destinationCount twentySixDestinations"
    by (simp add: twentySix_count MAX_DESTINATIONS_def)
  have f: "falsy (body_origins noOriginsBody)"
    by (simp add: noOriginsBody_def falsy_def)
  show ?thesis
    using c d f by (simp add: POST_too_many [OF d c] NextResponse_json_def errorBody_def)
qed

text \<open>
  C4, amended. For every body whose destination count (destinations split on the
  vertical bar) exceeds 25, the proxy answers with status 400, issues no outbound call
  and leaves the Cache Store as it was. The error text is exactly
  "Exceeds max 25 destinations." when origins is present and the API credential is
  configured; otherwise one of the two earlier checks answers first.
\<close>

theorem too_many_destinations_rejected:
  "body_destinations b = Some d \<Longrightarrow> MAX_DESTINATIONS < destinationCount d \<Longrightarrow>
     responseStatus (result (POST eng apiKey fetch now storeNow cache (Return b))) = 400
   \<and> outboundCalls (trace (POST eng apiKey fetch now storeNow cache (Return b))) = 0
   \<and> store (POST eng apiKey fetch now storeNow cache (Return b)) = cache
   \<and> (\<not> falsy (body_origins b) \<and> \<not> falsy apiKey \<longrightarrow>
        responseBody (result (POST eng apiKey fetch now storeNow cache (Return b)))
          = errorBody ''Exceeds max 25 destinations.'')"
  by (simp add: POST_too_many NextResponse_json_def outboundCalls_def)

theorem too_many_destinations_rejected_witness:
  "body_destinations tooManyBody = Some twentySixDestinations
   \<and> MAX_DESTINATIONS < destinationCount twentySixDestinations
   \<and> \<not> falsy (body_origins tooManyBody) \<and> \<not> falsy (Some ''key'')
   \<and> result (POST textEngine (Some ''key'') (replying 200 (Return routeMatrix)) 0 0
        emptyCache (Return tooManyBody))
       = \<lparr>responseBody = JObj [(''error'', JStr ''Exceeds max 25 destinations.'')],
          responseStatus = 400\<rparr>
   \<and> outboundCalls (trace (POST textEngine (Some ''key'') (replying 200 (Return routeMatrix)) 0 0
        emptyCache (Return tooManyBody))) = 0"
proof -
  have d: "body_destinations tooManyBody = Some twentySixDestinations"
    by (simp add: tooManyBody_def noOriginsBody_def)
  have c: "MAX_DESTINATIONS < destinationCount twentySixDestinations"
    by (simp add: twentySix_count MAX_DESTINATIONS_def)
  have f: "\<not> falsy (body_origins tooManyBody)" "\<not> falsy (Some ''key'')"
    by (simp_all add: tooManyBody_def noOriginsBody_def falsy_def)
  show ?thesis
    using d c f too_many_destinations_rejected [OF d c, of textEngine "Some ''key''" "replying 200 (Return routeMatrix)" 0 0 emptyCache]
    by (simp add: errorBody_def nextResponse.equality)
qed

text \<open>
  C5 as stated fails: the handler reads the upstream body as JSON before it looks at the
  status, so a 429 whose body is not JSON ends in the catch-all and is answered 500.
\<close>

theorem rate_limit_unreadable_body:
  "passesValidation (Some ''key'') exampleBody
   \<and> responseStatus (result (POST textEngine (Some ''key'')
        (replying 429 (Throw ''Unexpected end of JSON input'')) 0 0 emptyCache (Return exampleBody)))
       \<noteq> 429"
  by (simp add: exampleBody_valid exampleBody_miss POST_valid_miss replying_def
      handleResponse_def NextResponse_json_def)

text \<open>
  C5, amended. When the upstream call returns HTTP status 429, the Cache Store is left
  as it was and no cache write happens; when in addition the body of that response
  parses as JSON, the proxy answers with status 429 and the error text
  "Rate limit exceeded. Try later.".
\<close>

theorem rate_limit_leaves_cache:
  assumes "passesValidation apiKey b"
    and "\<not> fresh now (cache (fingerprint b))"
    and "fetch (the apiKey) (outboundBody eng b) = Return response"
    and "fr_status response = 429"
  shows "store (POST eng apiKey fetch now storeNow cache (Return b)) = cache
    \<and> cacheWrites (trace (POST eng apiKey fetch now storeNow cache (Return b))) = 0
    \<and> (\<forall>data. fr_json response = Return data \<longrightarrow>
          result (POST eng apiKey fetch now storeNow cache (Return b))
            = NextResponse_json (errorBody ''Rate limit exceeded. Try later.'') 429)"
  using assms
  by (simp add: POST_valid_miss handleResponse_def ok_def cacheWrites_def
      split: completion.splits)

theorem rate_limit_leaves_cache_witness:
  "passesValidation (Some ''key'') exampleBody
   \<and> \<not> fresh 0 (emptyCache (fingerprint exampleBody))
   \<and> result (POST textEngine (Some ''key'') (replying 429 (Return JNull)) 0 0
        (emptyCache :: string cache) (Return exampleBody))
       = \<lparr>responseBody = JObj [(''error'', JStr ''Rate limit exceeded. Try later.'')],
          responseStatus = 429\<rparr>
   \<and> store (POST textEngine (Some ''key'') (replying 429 (Return JNull)) 0 0
        (emptyCache :: string cache) (Return exampleBody)) = emptyCache"
  using
    rate_limit_leaves_cache [where apiKey = "Some ''key''" and b = exampleBody and now = 0
          and cache = "emptyCache :: string cache" and fetch = "replying 429 (Return JNull)"
          and eng = textEngine and response = "\<lparr>fr_status = 429, fr_json = Return JNull\<rparr>"
          and storeNow = 0]
  by (simp add: exampleBody_valid exampleBody_miss NextResponse_json_def errorBody_def
      replying_def)




text \<open>
  C7. For every origin coordinate, ordered sequence of destination coordinates, mode,
  unit string and language code, the payload of the Wire-Format Adapter has an origins
  list of exactly one waypoint wrapping the origin's latitude and longitude, a
  destinations list with one waypoint per input destination, in the same order and with
  the same latitude and longitude values, travelMode the uppercased mode, units the
  uppercased unit string and languageCode the language as given. From the request
  strings: for an origin "lat,lng" and one or more destinations "lat,lng" joined by the
  vertical bar, every waypoint carries exactly the numbers that \<^verbatim>\<open>Number\<close> reads from the
  two parts of its pair.
\<close>

theorem wire_format_adapter_payload:
  "rb_origins (buildRequestBody originLat originLng destArray mode language units)
     = [toEndpoint originLat originLng]
   \<and> latitude (latLng (location (waypoint (toEndpoint originLat originLng)))) = originLat
   \<and> longitude (latLng (location (waypoint (toEndpoint originLat originLng)))) = originLng
   \<and> length (rb_destinations (buildRequestBody originLat originLng destArray mode language units))
       = length destArray
   \<and> map (\<lambda>e. \<lparr>lat = latitude (latLng (location (waypoint e))),
                lng = longitude (latLng (location (waypoint e)))\<rparr>)
        (rb_destinations (buildRequestBody originLat originLng destArray mode language units))
       = destArray
   \<and> travelMode (buildRequestBody originLat originLng destArray mode language units)
       = toUpperCase mode
   \<and> rb_units (buildRequestBody originLat originLng destArray mode language units)
       = toUpperCase units
   \<and> languageCode (buildRequestBody originLat originLng destArray mode language units)
       = language
   \<and> (CHR '','' \<notin> set la \<and> CHR '','' \<notin> set lo \<and> ps \<noteq> []
       \<and> (\<forall>p \<in> set ps. CHR '','' \<notin> set (fst p) \<and> CHR ''|'' \<notin> set (fst p)
                        \<and> CHR '','' \<notin> set (snd p) \<and> CHR ''|'' \<notin> set (snd p))
      \<longrightarrow> wireRequest eng (la @ '','' @ lo) (join ''|'' (map (\<lambda>p. fst p @ '','' @ snd p) ps))
            mode units language
          = \<lparr>rb_origins = [toEndpoint (Some (Number eng la)) (Some (Number eng lo))],
             rb_destinations =
               map (\<lambda>p. toEndpoint (Some (Number eng (fst p))) (Some (Number eng (snd p)))) ps,
             travelMode = toUpperCase mode,
             languageCode = language,
             rb_units = toUpperCase units\<rparr>)"
proof -
  have unwrap: "map (\<lambda>e. \<lparr>lat = latitude (latLng (location (waypoint e))),
                lng = longitude (latLng (location (waypoint e)))\<rparr>)
        (map (\<lambda>d. toEndpoint (lat d) (lng d)) ds) = ds" for ds :: "'a coord list"
    by (induction ds) (simp_all add: toEndpoint_def)
  have adapter: "map (\<lambda>e. \<lparr>lat = latitude (latLng (location (waypoint e))),
                lng = longitude (latLng (location (waypoint e)))\<rparr>)
        (rb_destinations (buildRequestBody originLat originLng destArray mode language units))
       = destArray"
    using unwrap [of destArray] by (simp add: buildRequestBody_def)
  have whole: "wireRequest eng (la @ '','' @ lo) (join ''|'' (map (\<lambda>p. fst p @ '','' @ snd p) ps))
            mode units language
          = \<lparr>rb_origins = [toEndpoint (Some (Number eng la)) (Some (Number eng lo))],
             rb_destinations =
               map (\<lambda>p. toEndpoint (Some (Number eng (fst p))) (Some (Number eng (snd p)))) ps,
             travelMode = toUpperCase mode,
             languageCode = language,
             rb_units = toUpperCase units\<rparr>"
    if c: "CHR '','' \<notin> set la" "CHR '','' \<notin> set lo" and ne: "ps \<noteq> []"
      and clean: "\<forall>p \<in> set ps. CHR '','' \<notin> set (fst p) \<and> CHR ''|'' \<notin> set (fst p)
                        \<and> CHR '','' \<notin> set (snd p) \<and> CHR ''|'' \<notin> set (snd p)"
  proof -
    have bars: "\<forall>p \<in> set ps. CHR ''|'' \<notin> set (fst p) \<and> CHR ''|'' \<notin> set (snd p)"
      using clean by blast
    have dests: "parseDestinations eng (join ''|'' (map (\<lambda>p. fst p @ '','' @ snd p) ps))
        = map (\<lambda>p. \<lparr>lat = Some (Number eng (fst p)), lng = Some (Number eng (snd p))\<rparr>) ps"
      unfolding parseDestinations_def split_destinations [OF ne bars]
      using clean by (simp add: parsePair_pair del: append.simps)
    show ?thesis
      unfolding wireRequest_def dests parsePair_pair [OF c]
      by (simp add: buildRequestBody_def Let_def comp_def)
  qed
  show ?thesis
    using adapter whole by (simp add: buildRequestBody_def toEndpoint_def)
qed

theorem wire_format_adapter_payload_witness:
  "wireRequest textEngine ''34.0,-6.0'' ''34.1,-6.1|34.2,-6.2'' ''drive'' ''metric'' ''fr''
     = \<lparr>rb_origins = [toEndpoint (Some ''34.0'') (Some ''-6.0'')],
        rb_destinations = [toEndpoint (Some ''34.1'') (Some ''-6.1''),
                           toEndpoint (Some ''34.2'') (Some ''-6.2'')],
        travelMode = ''DRIVE'', languageCode = ''fr'', rb_units = ''METRIC''\<rparr>"
proof -
  have u: "toUpperCase ''drive'' = ''DRIVE''" "toUpperCase ''metric'' = ''METRIC''"
    by code_simp+
  have "CHR '','' \<notin> set ''34.0'' \<and> CHR '','' \<notin> set ''-6.0''
      \<and> [(''34.1'', ''-6.1''), (''34.2'', ''-6.2'')] \<noteq> []
      \<and> (\<forall>p \<in> set [(''34.1'', ''-6.1''), (''34.2'', ''-6.2'')].
            CHR '','' \<notin> set (fst p) \<and> CHR ''|'' \<notin> set (fst p)
            \<and> CHR '','' \<notin> set (snd p) \<and> CHR ''|'' \<notin> set (snd p))
    \<longrightarrow> wireRequest textEngine (''34.0'' @ '','' @ ''-6.0'')
          (join ''|'' (map (\<lambda>p. fst p @ '','' @ snd p) [(''34.1'', ''-6.1''), (''34.2'', ''-6.2'')]))
          ''drive'' ''metric'' ''fr''
        = \<lparr>rb_origins = [toEndpoint (Some (Number textEngine ''34.0''))
                                   (Some (Number textEngine ''-6.0''))],
           rb_destinations =
             map (\<lambda>p. toEndpoint (Some (Number textEngine (fst p)))
                                   (Some (Number textEngine (snd p))))
               [(''34.1'', ''-6.1''), (''34.2'', ''-6.2'')],
           travelMode = toUpperCase ''drive'',
           languageCode = ''fr'',
           rb_units = toUpperCase ''metric''\<rparr>"
    using wire_format_adapter_payload [where la = "''34.0''" and lo = "''-6.0''"
        and ps = "[(''34.1'', ''-6.1''), (''34.2'', ''-6.2'')]"
        and eng = textEngine and mode = "''drive''" and units = "''metric''"
        and language = "''fr''" and originLat = None and originLng = None and destArray = "[]"]
    by blast
  then show ?thesis
    by (simp add: u textEngine_def)
qed

text \<open>
  C8 as stated fails in its second half: the destination-count check does not stop the
  empty string, whose count is 1. The request is answered by the presence check.
\<close>

theorem empty_destinations_passes_count_check:
  "destinationCount [] = 1
   \<and> \<not> MAX_DESTINATIONS < destinationCount []
   \<and> body_destinations emptyDestinationsBody = Some []
   \<and> responseBody (result (POST textEngine (Some ''key'') (replying 200 (Return routeMatrix)) 0 0
        emptyCache (Return emptyDestinationsBody)))
       = errorBody ''Missing origins or destinations''"
  by (simp add: destinationCount_def split_def MAX_DESTINATIONS_def emptyDestinationsBody_def
      exampleBody_def POST_def POST_try_def falsy_def Let_def NextResponse_json_def)

text \<open>
  C8, amended. An empty (or absent) destinations string never reaches the Geocoordinate
  Parser: the presence check answers "Missing origins or destinations" before anything
  else runs. The destination-count check is not what guards it: splitting the empty
  string gives one piece, which is within the limit.
\<close>

theorem empty_destinations_never_parsed:
  "falsy (body_destinations b) \<Longrightarrow>
     parserRuns (trace (POST eng apiKey fetch now storeNow cache (Return b))) = 0
   \<and> result (POST eng apiKey fetch now storeNow cache (Return b))
       = NextResponse_json (errorBody ''Missing origins or destinations'') 400
   \<and> destinationCount [] = 1 \<and> destinationCount [] \<le> MAX_DESTINATIONS"
  by (simp add: POST_def POST_try_def Let_def parserRuns_def destinationCount_def split_def
      MAX_DESTINATIONS_def)

theorem empty_destinations_never_parsed_witness:
  "falsy (body_destinations emptyDestinationsBody)
   \<and> parserRuns (trace (POST textEngine (Some ''key'') (replying 200 (Return routeMatrix)) 0 0
        emptyCache (Return emptyDestinationsBody))) = 0"
proof -
  have f: "falsy (body_destinations emptyDestinationsBody)"
    by (simp add: emptyDestinationsBody_def falsy_def)
  show ?thesis
    using f empty_destinations_never_parsed [OF f, of textEngine "Some ''key''" "replying 200 (Return routeMatrix)" 0 0 emptyCache]
    by simp
qed

text \<open>
  C9. For any two valid requests that are identical except for the letter-case of the
  mode or units field (the uppercased values agree, the values themselves differ in at
  least one of the two fields), the outbound wire payloads are equal and the
  fingerprints differ. So the second request does not see the entry of the first: its
  answer and its events are what they would be had the first request never run, and when
  neither fingerprint has a fresh entry to start with, each of the two requests issues
  its own outbound call.
\<close>

theorem case_variants_share_payload_not_cache:
  assumes "passesValidation apiKey b1" and "passesValidation apiKey b2"
    and "body_origins b2 = body_origins b1"
    and "body_destinations b2 = body_destinations b1"
    and "body_language b2 = body_language b1"
    and "toUpperCase (withDefault ''DRIVE'' (body_mode b2))
           = toUpperCase (withDefault ''DRIVE'' (body_mode b1))"
    and "toUpperCase (withDefault ''METRIC'' (body_units b2))
           = toUpperCase (withDefault ''METRIC'' (body_units b1))"
    and "withDefault ''DRIVE'' (body_mode b2) \<noteq> withDefault ''DRIVE'' (body_mode b1)
         \<or> withDefault ''METRIC'' (body_units b2) \<noteq> withDefault ''METRIC'' (body_units b1)"
  shows "outboundBody eng b2 = outboundBody eng b1
    \<and> fingerprint b2 \<noteq> fingerprint b1
    \<and> result (POST eng apiKey fetch2 t2 s2
          (store (POST eng apiKey fetch1 t1 s1 cache (Return b1))) (Return b2))
        = result (POST eng apiKey fetch2 t2 s2 cache (Return b2))
    \<and> trace (POST eng apiKey fetch2 t2 s2
          (store (POST eng apiKey fetch1 t1 s1 cache (Return b1))) (Return b2))
        = trace (POST eng apiKey fetch2 t2 s2 cache (Return b2))
    \<and> (\<not> fresh t1 (cache (fingerprint b1)) \<and> \<not> fresh t2 (cache (fingerprint b2)) \<longrightarrow>
          outboundCalls (trace (POST eng apiKey fetch1 t1 s1 cache (Return b1))) = 1
        \<and> outboundCalls (trace (POST eng apiKey fetch2 t2 s2
             (store (POST eng apiKey fetch1 t1 s1 cache (Return b1))) (Return b2))) = 1)"
proof -
  let ?r1 = "POST eng apiKey fetch1 t1 s1 cache (Return b1)"
  have wire: "outboundBody eng b2 = outboundBody eng b1"
    using assms(3-7) by (simp add: outboundBody_def wireRequest_def buildRequestBody_def Let_def)
  have len: "length (withDefault ''DRIVE'' (body_mode b2))
      = length (withDefault ''DRIVE'' (body_mode b1))"
    using assms(6) by (rule toUpperCase_length)
  have keys: "fingerprint b2 \<noteq> fingerprint b1"
  proof
    assume "fingerprint b2 = fingerprint b1"
    then have "makeCacheKey (the (body_origins b1)) (the (body_destinations b1))
          (withDefault ''DRIVE'' (body_mode b2)) (withDefault ''METRIC'' (body_units b2))
          (withDefault ''fr'' (body_language b1))
        = makeCacheKey (the (body_origins b1)) (the (body_destinations b1))
          (withDefault ''DRIVE'' (body_mode b1)) (withDefault ''METRIC'' (body_units b1))
          (withDefault ''fr'' (body_language b1))"
      using assms(3-5) by (simp add: fingerprint_def)
    then show False using cacheKey_inject [OF _ len] assms(8) by blast
  qed
  have other: "store ?r1 (fingerprint b2) = cache (fingerprint b2)"
    using keys by (simp add: POST_store_other_key)
  have same: "result (POST eng apiKey fetch2 t2 s2 (store ?r1) (Return b2))
        = result (POST eng apiKey fetch2 t2 s2 cache (Return b2))
      \<and> trace (POST eng apiKey fetch2 t2 s2 (store ?r1) (Return b2))
        = trace (POST eng apiKey fetch2 t2 s2 cache (Return b2))"
    using assms(2) other by (rule POST_valid_same_entry)
  have calls: "outboundCalls (trace ?r1) = 1
      \<and> outboundCalls (trace (POST eng apiKey fetch2 t2 s2 (store ?r1) (Return b2))) = 1"
    if "\<not> fresh t1 (cache (fingerprint b1))" "\<not> fresh t2 (cache (fingerprint b2))"
    using that assms(1,2) same by (simp add: POST_valid_miss_outbound)
  show ?thesis using wire keys same calls by blast
qed

theorem case_variants_share_payload_not_cache_witness:
  "passesValidation (Some ''key'') exampleBody
   \<and> passesValidation (Some ''key'') lowerCaseBody
   \<and> withDefault ''DRIVE'' (body_mode lowerCaseBody) = ''drive''
   \<and> withDefault ''DRIVE'' (body_mode exampleBody) = ''DRIVE''
   \<and> outboundBody textEngine lowerCaseBody = outboundBody textEngine exampleBody
   \<and> fingerprint lowerCaseBody \<noteq> fingerprint exampleBody
   \<and> outboundCalls (trace (POST textEngine (Some ''key'') (replying 200 (Return routeMatrix)) 0 0
        emptyCache (Return exampleBody))) = 1
   \<and> outboundCalls (trace (POST textEngine (Some ''key'') (replying 200 (Return routeMatrix)) 1 1
        (store (POST textEngine (Some ''key'') (replying 200 (Return routeMatrix)) 0 0
           emptyCache (Return exampleBody)))
        (Return lowerCaseBody))) = 1"
proof -
  have m: "withDefault ''DRIVE'' (body_mode lowerCaseBody) = ''drive''"
    "withDefault ''DRIVE'' (body_mode exampleBody) = ''DRIVE''"
    "withDefault ''METRIC'' (body_units lowerCaseBody) = withDefault ''METRIC'' (body_units exampleBody)"
    "body_origins lowerCaseBody = body_origins exampleBody"
    "body_destinations lowerCaseBody = body_destinations exampleBody"
    "body_language lowerCaseBody = body_language exampleBody"
    by (simp_all add: lowerCaseBody_def exampleBody_def withDefault_def)
  have u: "toUpperCase ''drive'' = toUpperCase ''DRIVE''"
    by code_simp
  have miss: "\<not> fresh 0 ((emptyCache :: string cache) (fingerprint exampleBody))"
    "\<not> fresh 1 ((emptyCache :: string cache) (fingerprint lowerCaseBody))"
    by (simp_all add: emptyCache_def fresh_def)
  have h6: "toUpperCase (withDefault ''DRIVE'' (body_mode lowerCaseBody))
      = toUpperCase (withDefault ''DRIVE'' (body_mode exampleBody))"
    by (simp add: m u)
  have h7: "toUpperCase (withDefault ''METRIC'' (body_units lowerCaseBody))
      = toUpperCase (withDefault ''METRIC'' (body_units exampleBody))"
    by (simp add: m)
  have h8: "withDefault ''DRIVE'' (body_mode lowerCaseBody) \<noteq> withDefault ''DRIVE'' (body_mode exampleBody)
      \<or> withDefault ''METRIC'' (body_units lowerCaseBody) \<noteq> withDefault ''METRIC'' (body_units exampleBody)"
    by (simp add: m)
  note variants = case_variants_share_payload_not_cache [where apiKey = "Some ''key''" and ?b1.0 = exampleBody
      and ?b2.0 = lowerCaseBody and eng = textEngine and cache = "emptyCache :: string cache"
      and ?fetch1.0 = "replying 200 (Return routeMatrix)"
      and ?fetch2.0 = "replying 200 (Return routeMatrix)"
      and ?t1.0 = 0 and ?s1.0 = 0 and ?t2.0 = 1 and ?s2.0 = 1,
      OF exampleBody_valid lowerCaseBody_valid m(4) m(5) m(6) h6 h7 h8]
  show ?thesis
    using variants miss m(1,2) exampleBody_valid lowerCaseBody_valid by blast
qed

text \<open>
  C10. \<open>verifyAuthToken\<close> always returns and never throws, and for every header its
  result is this: \<^verbatim>\<open>null\<close> when the header is absent or does not start with "Bearer ";
  otherwise the token is the text between that prefix and the next "Bearer " (or the
  end of the header), the result is \<^verbatim>\<open>null\<close> when the token is empty, the user id when
  the verifier accepts the token, and \<^verbatim>\<open>null\<close> when the verifier rejects or throws. The
  last two conjuncts say what the token is without \<open>split_at\<close>: the whole rest when
  "Bearer " does not occur in it, and the part before its first occurrence otherwise.
\<close>

theorem verifyAuthToken_returns_uid_or_null:
  "(\<exists>r. verifyAuthToken verifyIdToken authHeader = Return r)
   \<and> verifyAuthToken verifyIdToken authHeader =
       (case authHeader of
          None \<Rightarrow> Return None
        | Some a \<Rightarrow>
            if \<not> prefix ''Bearer '' a then Return None
            else if hd (split_at (drop (length ''Bearer '') a) ''Bearer '') = [] then Return None
            else (case verifyIdToken (hd (split_at (drop (length ''Bearer '') a) ''Bearer '')) of
                    Return uid \<Rightarrow> Return (Some uid)
                  | Throw m \<Rightarrow> Return None))
   \<and> verifyAuthToken verifyIdToken None = Return None
   \<and> (\<not> prefix ''Bearer '' h \<longrightarrow> verifyAuthToken verifyIdToken (Some h) = Return None)
   \<and> verifyAuthToken verifyIdToken (Some ''Bearer '') = Return None
   \<and> (\<not> sublist ''Bearer '' token \<longrightarrow>
        verifyAuthToken verifyIdToken (Some (''Bearer '' @ token))
          = (if token = [] then Return None
             else (case verifyIdToken token of
                     Return uid \<Rightarrow> Return (Some uid)
                   | Throw m \<Rightarrow> Return None)))
   \<and> (\<not> sublist ''Bearer '' (token @ ''Bearer'') \<longrightarrow>
        verifyAuthToken verifyIdToken (Some (''Bearer '' @ token @ ''Bearer '' @ others))
          = (if token = [] then Return None
             else (case verifyIdToken token of
                     Return uid \<Rightarrow> Return (Some uid)
                   | Throw m \<Rightarrow> Return None)))"
proof -
  have total: "\<exists>r. verifyAuthToken verifyIdToken authHeader = Return r"
    by (cases "verifyAuthToken_try verifyIdToken authHeader") (simp_all add: verifyAuthToken_def)
  have absent: "verifyAuthToken verifyIdToken None = Return None"
    by (simp add: verifyAuthToken_def verifyAuthToken_try_def falsy_def)
  have other: "verifyAuthToken verifyIdToken (Some a) = Return None"
    if "\<not> prefix ''Bearer '' a" for a
    using that by (simp add: verifyAuthToken_def verifyAuthToken_try_def)
  have every: "verifyAuthToken verifyIdToken authHeader =
       (case authHeader of
          None \<Rightarrow> Return None
        | Some a \<Rightarrow>
            if \<not> prefix ''Bearer '' a then Return None
            else if hd (split_at (drop (length ''Bearer '') a) ''Bearer '') = [] then Return None
            else (case verifyIdToken (hd (split_at (drop (length ''Bearer '') a) ''Bearer '')) of
                    Return uid \<Rightarrow> Return (Some uid)
                  | Throw m \<Rightarrow> Return None))"
  proof (cases authHeader)
    case None
    then show ?thesis by (simp add: absent)
  next
    case (Some a)
    show ?thesis
    proof (cases "prefix ''Bearer '' a")
      case False
      then show ?thesis using Some by (simp add: other)
    next
      case True
      then obtain rest where a: "a = ''Bearer '' @ rest" by (auto elim: prefixE)
      have d: "drop (length ''Bearer '') a = rest" unfolding a by simp
      show ?thesis
        unfolding Some option.case d using True
        unfolding a by (simp only: verifyAuthToken_bearer if_False not_not if_True simp_thms)
    qed
  qed
  have empty: "verifyAuthToken verifyIdToken (Some ''Bearer '') = Return None"
    using verifyAuthToken_bearer [of verifyIdToken "[]"] by simp
  have single: "verifyAuthToken verifyIdToken (Some (''Bearer '' @ token))
      = (if token = [] then Return None
         else (case verifyIdToken token of
                 Return uid \<Rightarrow> Return (Some uid) | Throw m \<Rightarrow> Return None))"
    if "\<not> sublist ''Bearer '' token"
    unfolding verifyAuthToken_bearer split_at_no_occurrence [OF that] by simp
  have first: "verifyAuthToken verifyIdToken (Some (''Bearer '' @ token @ ''Bearer '' @ others))
      = (if token = [] then Return None
         else (case verifyIdToken token of
                 Return uid \<Rightarrow> Return (Some uid) | Throw m \<Rightarrow> Return None))"
    if "\<not> sublist ''Bearer '' (token @ ''Bearer'')"
  proof -
    have "split_at (token @ ''Bearer '' @ others) ''Bearer '' = token # split_at others ''Bearer ''"
      by (rule split_at_first_occurrence) (use that in simp_all)
    then show ?thesis
      unfolding verifyAuthToken_bearer by simp
  qed
  show ?thesis using total every absent other empty single first by blast
qed

theorem verifyAuthToken_returns_uid_or_null_witness:
  "verifyAuthToken tokenVerifier (Some ''Bearer good'') = Return (Some ''user-1'')
   \<and> verifyAuthToken tokenVerifier (Some ''Bearer expired'') = Return None
   \<and> verifyAuthToken tokenVerifier (Some ''Basic good'') = Return None
   \<and> verifyAuthToken tokenVerifier (Some ''Bearer Bearer good'') = Return None
   \<and> verifyAuthToken tokenVerifier (Some ''Bearer expiredBearer good'') = Return None
   \<and> verifyAuthToken tokenVerifier (Some ''Bearer goodBearer expired'') = Return (Some ''user-1'')"
proof -
  have g: "\<not> sublist ''Bearer '' ''good''" "\<not> sublist ''Bearer '' ''expired''"
    "\<not> prefix ''Bearer '' ''Basic good''"
    "\<not> sublist ''Bearer '' ([] @ ''Bearer'')"
    "\<not> sublist ''Bearer '' (''expired'' @ ''Bearer'')"
    "\<not> sublist ''Bearer '' (''good'' @ ''Bearer'')"
    by (simp_all add: sublist_code del: sublist_code(1,2))
  show ?thesis
    using g
      verifyAuthToken_returns_uid_or_null [of tokenVerifier None "''Basic good''" "''good''" "''expired''"]
      verifyAuthToken_returns_uid_or_null [of tokenVerifier None "''Basic good''" "''expired''" "''good''"]
      verifyAuthToken_returns_uid_or_null [of tokenVerifier None "''Basic good''" "[]" "''good''"]
    by (simp add: tokenVerifier_def)
qed

end
